theory Spec2Isabelle
  imports Main "HOL-Library.Sublist"
begin

unbundle bit_operations_syntax

section \<open>Signals and stream endpoints\<close>

text \<open>
  The design in \<^verbatim>\<open>litescope/core.py\<close> is a synchronous circuit description: per clock
  cycle every module computes its combinational outputs from its registers and inputs
  (\<^verbatim>\<open>self.comb\<close>), and at the clock edge its registers take their next values
  (\<^verbatim>\<open>self.sync\<close>). Each module is embedded as a record of registers, an output function
  and a step function.

  A signal value is an \<^typ>\<open>int\<close>; a signal of width \<open>w\<close> holds \<open>take_bit w\<close> of what is
  assigned to it. A stream endpoint of layout \<^verbatim>\<open>core_layout(dw, hw)\<close> carries \<open>valid\<close>,
  the payload fields \<open>data\<close> and \<open>hit\<close> from master to slave, and \<open>ready\<close> from slave to
  master. The \<^verbatim>\<open>first\<close>/\<^verbatim>\<open>last\<close> framing bits of an endpoint are copied by every
  \<^verbatim>\<open>connect\<close> exactly like \<open>data\<close> and are read by nothing in this file; they are left
  out of the record.
\<close>

record stream =
  valid :: bool
  data :: int
  hit :: int

section \<open>FrontendTrigger\<close>

text \<open>
  \<^verbatim>\<open>MultiReg(i, o, cd)\<close> is the two-stage synchroniser of the hardware library: at each
  clock edge the first register takes the input and the second takes the first; the
  output is the second register.
\<close>

type_synonym multireg = "int \<times> int"

definition MultiReg_step :: "nat \<Rightarrow> int \<Rightarrow> multireg \<Rightarrow> multireg" where
  "MultiReg_step w i regs = (take_bit w i, fst regs)"

definition MultiReg_o :: "multireg \<Rightarrow> int" where
  "MultiReg_o regs = snd regs"

text \<open>
  \<^verbatim>\<open>dw = len(self.sink.payload.raw_bits())\<close> rebinds \<open>dw\<close> to the width of the whole
  payload, data and hit together, so the \<open>value\<close> and \<open>mask\<close> registers are one bit
  wider than the data field.
\<close>

definition payload_width :: "nat \<Rightarrow> nat" where
  "payload_width dw = dw + 1"

record FrontendTrigger_regs =
  value_sync :: multireg
  mask_sync :: multireg

definition FrontendTrigger_reset :: FrontendTrigger_regs where
  "FrontendTrigger_reset = \<lparr>value_sync = (0, 0), mask_sync = (0, 0)\<rparr>"

text \<open>The clocked part: the two synchronisers sample the CSR storages.\<close>

definition FrontendTrigger_step ::
  "nat \<Rightarrow> int \<Rightarrow> int \<Rightarrow> FrontendTrigger_regs \<Rightarrow> FrontendTrigger_regs" where
  "FrontendTrigger_step dw value_storage mask_storage t =
     \<lparr>value_sync = MultiReg_step (payload_width dw) value_storage (value_sync t),
      mask_sync = MultiReg_step (payload_width dw) mask_storage (mask_sync t)\<rparr>"

text \<open>
  The combinational part: \<^verbatim>\<open>self.sink.connect(self.source)\<close> copies valid and payload
  to the source and ready back to the sink, then
  \<^verbatim>\<open>self.source.hit.eq((self.sink.data & mask) == value)\<close> overrides the hit field.
  The result is the source-side stream and the sink-side ready.
\<close>

definition FrontendTrigger_hit :: "nat \<Rightarrow> int \<Rightarrow> int \<Rightarrow> int \<Rightarrow> bool" where
  "FrontendTrigger_hit dw v m d =
     ((take_bit dw d AND take_bit (payload_width dw) m) = take_bit (payload_width dw) v)"

definition FrontendTrigger_comb ::
  "nat \<Rightarrow> FrontendTrigger_regs \<Rightarrow> stream \<Rightarrow> bool \<Rightarrow> stream \<times> bool" where
  "FrontendTrigger_comb dw t sink source_ready =
     (\<lparr>valid = valid sink,
       data = data sink,
       hit = of_bool (FrontendTrigger_hit dw (MultiReg_o (value_sync t))
                        (MultiReg_o (mask_sync t)) (data sink))\<rparr>,
      source_ready)"

text \<open>A signal value fits its width.\<close>

definition fits :: "nat \<Rightarrow> int \<Rightarrow> bool" where
  "fits w x = (0 \<le> x \<and> x < 2 ^ w)"

section \<open>FrontendSubSampler\<close>

text \<open>
  Registers: the synchroniser of the 16-bit CSR \<^verbatim>\<open>value\<close> and the 16-bit \<^verbatim>\<open>counter\<close>.
\<close>

record FrontendSubSampler_regs =
  subsample_sync :: multireg
  counter :: int

definition FrontendSubSampler_reset :: FrontendSubSampler_regs where
  "FrontendSubSampler_reset = \<lparr>subsample_sync = (0, 0), counter = 0\<rparr>"








definition bubble :: stream where
  "bubble = \<lparr>valid = False, data = 0, hit = 0\<rparr>"

section \<open>The storage FIFO\<close>

text \<open>
  Modelled from the spec: \<^verbatim>\<open>stream.SyncFIFO\<close> is a class of the hardware library that
  \<^verbatim>\<open>core.py\<close> imports; its source is not in the repository. The spec describes the
  circular buffer as an ordered sequence of samples of bounded capacity with a fill
  level, written while it can accept a sample and read from its tail through a
  valid/ready handshake, one word per cycle in which both are high. The model is that
  queue, with what the constructor call
  \<^verbatim>\<open>stream.SyncFIFO([("data", dw)], depth//cd_ratio, buffered=True)\<close> fixes:
  \<^item> \<open>storage\<close> is the memory of \<open>depth\<close> words, oldest first; a word is written when
    the sink is valid and the memory is not full (\<^verbatim>\<open>sink.ready\<close> is \<open>writable\<close>);
  \<^item> \<^verbatim>\<open>buffered=True\<close> puts an output register behind the memory: \<open>dout\<close> is the word
    offered at the source and \<open>readable\<close> (\<^verbatim>\<open>source.valid\<close>) says that it holds one;
    the oldest word of the memory moves into the register in a cycle where the register
    is empty or is being read;
  \<^item> \<open>level\<close> counts the words of the memory and the word of the output register.
\<close>

record fifo =
  storage :: "int list"
  dout :: int
  readable :: bool

definition fifo_empty :: fifo where
  "fifo_empty = \<lparr>storage = [], dout = 0, readable = False\<rparr>"

definition level :: "fifo \<Rightarrow> nat" where
  "level f = length (storage f) + (if readable f then 1 else 0)"

definition writable :: "nat \<Rightarrow> fifo \<Rightarrow> bool" where
  "writable depth f = (length (storage f) \<noteq> depth)"

text \<open>
  One clock edge of the FIFO: \<open>we\<close> and \<open>din\<close> are \<^verbatim>\<open>sink.valid\<close> and \<^verbatim>\<open>sink.data\<close>,
  \<open>re\<close> is \<^verbatim>\<open>source.ready\<close>.
\<close>

definition SyncFIFO_step :: "nat \<Rightarrow> bool \<Rightarrow> int \<Rightarrow> bool \<Rightarrow> fifo \<Rightarrow> fifo" where
  "SyncFIFO_step depth we din re f =
     (let memory_re = (storage f \<noteq> [] \<and> (\<not> readable f \<or> re));
          kept = (if memory_re then tl (storage f) else storage f)
      in \<lparr>storage = (if we \<and> writable depth f then kept @ [din] else kept),
          dout = (if memory_re then hd (storage f) else dout f),
          readable = (if memory_re then True else if re then False else readable f)\<rparr>)"

text \<open>The words held, oldest first: the output register's word, then the memory's.\<close>

definition contents :: "fifo \<Rightarrow> int list" where
  "contents f = (if readable f then [dout f] else []) @ storage f"

section \<open>AnalyzerStorage\<close>

text \<open>
  \<^verbatim>\<open>depth//cd_ratio\<close> is the FIFO depth in words; Python raises ZeroDivisionError for
  \<^verbatim>\<open>cd_ratio = 0\<close>, modelled as \<open>None\<close>.
\<close>

definition AnalyzerStorage_mem_depth :: "nat \<Rightarrow> nat \<Rightarrow> nat option" where
  "AnalyzerStorage_mem_depth depth cd_ratio =
     (if cd_ratio = 0 then None else Some (depth div cd_ratio))"

datatype fsm_state = IDLE | WAIT | RUN

text \<open>
  What stays fixed while the module runs: the FIFO depth and the contents of the CSR
  storages \<^verbatim>\<open>length\<close> and \<^verbatim>\<open>offset\<close> (the CSR bus that writes them is outside this file).
\<close>

record storage_cfg =
  mem_depth :: nat
  length_storage :: nat
  offset_storage :: nat

record AnalyzerStorage_regs =
  fsm :: fsm_state
  mem :: fifo

text \<open>
  The inputs of one cycle: the write strobe of the \<^verbatim>\<open>start\<close> CSR, the write strobe and
  written bit of the \<^verbatim>\<open>mem_ready\<close> CSR, and the sink-side stream.
\<close>

record storage_in =
  start_re :: bool
  mem_ready_re :: bool
  mem_ready_r :: bool
  sink :: stream

text \<open>
  The combinational signals of one cycle. A signal that the active state does not assign
  has its reset value 0.
\<close>

record storage_comb =
  idle_status :: bool
  wait_status :: bool
  run_status :: bool
  next_state :: fsm_state
  sink_ready :: bool
  mem_sink_valid :: bool
  mem_source_ready :: bool
  mem_valid_status :: bool
  mem_data_status :: int

definition AnalyzerStorage_reset :: AnalyzerStorage_regs where
  "AnalyzerStorage_reset = \<lparr>fsm = IDLE, mem = fifo_empty\<rparr>"

definition AnalyzerStorage_comb ::
  "storage_cfg \<Rightarrow> AnalyzerStorage_regs \<Rightarrow> storage_in \<Rightarrow> storage_comb" where
  "AnalyzerStorage_comb cfg s i =
     (case fsm s of
        IDLE \<Rightarrow>
          \<lparr>idle_status = True, wait_status = False, run_status = False,
           next_state = (if start_re i then WAIT else IDLE),
           sink_ready = True,
           mem_sink_valid = False,
           mem_source_ready = (mem_ready_re i \<and> mem_ready_r i),
           mem_valid_status = readable (mem s),
           mem_data_status = dout (mem s)\<rparr>
      | WAIT \<Rightarrow>
          \<lparr>idle_status = False, wait_status = True, run_status = False,
           next_state = (if valid (sink i) \<and> hit (sink i) \<noteq> 0 then RUN else WAIT),
           sink_ready = writable (mem_depth cfg) (mem s),
           mem_sink_valid = valid (sink i),
           mem_source_ready = (level (mem s) \<ge> offset_storage cfg),
           mem_valid_status = readable (mem s),
           mem_data_status = dout (mem s)\<rparr>
      | RUN \<Rightarrow>
          \<lparr>idle_status = False, wait_status = False, run_status = True,
           next_state = (if \<not> writable (mem_depth cfg) (mem s)
                            \<or> level (mem s) \<ge> length_storage cfg
                         then IDLE else RUN),
           sink_ready = writable (mem_depth cfg) (mem s),
           mem_sink_valid = valid (sink i),
           mem_source_ready = (\<not> writable (mem_depth cfg) (mem s)
                                \<or> level (mem s) \<ge> length_storage cfg),
           mem_valid_status = readable (mem s),
           mem_data_status = dout (mem s)\<rparr>)"

text \<open>The clock edge: the FSM takes its next state and the FIFO steps.\<close>

definition AnalyzerStorage_step ::
  "storage_cfg \<Rightarrow> AnalyzerStorage_regs \<Rightarrow> storage_in \<Rightarrow> AnalyzerStorage_regs" where
  "AnalyzerStorage_step cfg s i =
     (let c = AnalyzerStorage_comb cfg s i
      in \<lparr>fsm = next_state c,
          mem = SyncFIFO_step (mem_depth cfg) (mem_sink_valid c) (data (sink i))
                  (mem_source_ready c) (mem s)\<rparr>)"

fun AnalyzerStorage_run ::
  "storage_cfg \<Rightarrow> AnalyzerStorage_regs \<Rightarrow> storage_in list \<Rightarrow> AnalyzerStorage_regs" where
  "AnalyzerStorage_run cfg s [] = s"
| "AnalyzerStorage_run cfg s (i # ins) = AnalyzerStorage_run cfg (AnalyzerStorage_step cfg s i) ins"

text \<open>Inputs of a cycle, for the scenarios below.\<close>

definition start_pulse :: storage_in where
  "start_pulse = \<lparr>start_re = True, mem_ready_re = False, mem_ready_r = False, sink = bubble\<rparr>"

definition quiet :: storage_in where
  "quiet = \<lparr>start_re = False, mem_ready_re = False, mem_ready_r = False, sink = bubble\<rparr>"

definition sample :: "int \<Rightarrow> storage_in" where
  "sample d = \<lparr>start_re = False, mem_ready_re = False, mem_ready_r = False,
               sink = \<lparr>valid = True, data = d, hit = 0\<rparr>\<rparr>"

definition hit_sample :: "int \<Rightarrow> storage_in" where
  "hit_sample d = \<lparr>start_re = False, mem_ready_re = False, mem_ready_r = False,
                   sink = \<lparr>valid = True, data = d, hit = 1\<rparr>\<rparr>"

definition host_pop :: storage_in where
  "host_pop = \<lparr>start_re = False, mem_ready_re = True, mem_ready_r = True, sink = bubble\<rparr>"

text \<open>
  The words written into the FIFO during a run: those of the cycles in which the FIFO's
  sink is valid and the FIFO is writable.
\<close>

fun written :: "storage_cfg \<Rightarrow> AnalyzerStorage_regs \<Rightarrow> storage_in list \<Rightarrow> int list" where
  "written cfg s [] = []"
| "written cfg s (i # ins) =
     (if mem_sink_valid (AnalyzerStorage_comb cfg s i) \<and> writable (mem_depth cfg) (mem s)
      then [data (sink i)] else [])
     @ written cfg (AnalyzerStorage_step cfg s i) ins"

text \<open>
  Two invariants of the fill level. In both, a FIFO whose output register is empty holds
  at most one word: the register is refilled one cycle after a word enters an empty FIFO.
\<close>

definition bounded :: "storage_cfg \<Rightarrow> AnalyzerStorage_regs \<Rightarrow> bool" where
  "bounded cfg s =
     (level (mem s) \<le> length_storage cfg \<and> (readable (mem s) \<or> level (mem s) \<le> 1))"


section \<open>Properties of the trigger matcher\<close>

lemma take_bit_fits: "fits w x \<Longrightarrow> take_bit w x = x"
  by (simp add: fits_def take_bit_int_eq_self)

text \<open>
  A CSR storage held at \<open>v\<close> and \<open>m\<close> for two clock edges is what the matcher sees,
  truncated to the payload width.
\<close>

lemma FrontendTrigger_synchronised:
  "MultiReg_o (value_sync (FrontendTrigger_step dw v m (FrontendTrigger_step dw v m t)))
     = take_bit (payload_width dw) v
   \<and> MultiReg_o (mask_sync (FrontendTrigger_step dw v m (FrontendTrigger_step dw v m t)))
     = take_bit (payload_width dw) m"
  by (simp add: FrontendTrigger_step_def MultiReg_step_def MultiReg_o_def)

text \<open>
  Claim C6. For every input sample the trigger matcher hands on the same sample, data
  unchanged, with hit equal to \<open>(data AND mask) = value\<close> for the synchronised
  configuration; valid goes through to the source and ready back to the sink in the same
  cycle, whatever they are.
\<close>

theorem FrontendTrigger_same_sample_with_hit:
  assumes "fits dw (data x)"
    and "fits (payload_width dw) (MultiReg_o (value_sync t))"
    and "fits (payload_width dw) (MultiReg_o (mask_sync t))"
  shows "FrontendTrigger_comb dw t x source_ready =
           (x\<lparr>hit := of_bool ((data x AND MultiReg_o (mask_sync t))
                                  = MultiReg_o (value_sync t))\<rparr>,
            source_ready)"
  using assms
  by (simp add: FrontendTrigger_comb_def FrontendTrigger_hit_def take_bit_fits)

theorem FrontendTrigger_same_sample_with_hit_witness:
  "FrontendTrigger_comb 4 \<lparr>value_sync = (0, 2), mask_sync = (0, 3)\<rparr>
       \<lparr>valid = True, data = 6, hit = 0\<rparr> False
     = (\<lparr>valid = True, data = 6, hit = 1\<rparr>, False)"
  using FrontendTrigger_same_sample_with_hit
          [of 4 "\<lparr>valid = True, data = 6, hit = 0\<rparr>"
              "\<lparr>value_sync = (0, 2), mask_sync = (0, 3)\<rparr>" False]
  by (simp add: fits_def MultiReg_o_def payload_width_def)

text \<open>
  Claim C9. When the synchronised value has a bit set outside the synchronised mask, the
  hit flag is 0 for every sample, so no sample can trigger a capture.
\<close>

theorem FrontendTrigger_value_outside_mask_never_hits:
  assumes "fits (payload_width dw) (MultiReg_o (value_sync t))"
    and "MultiReg_o (value_sync t) AND NOT (MultiReg_o (mask_sync t)) \<noteq> 0"
  shows "hit (fst (FrontendTrigger_comb dw t x source_ready)) = 0"
proof -
  let ?v = "MultiReg_o (value_sync t)" and ?m = "MultiReg_o (mask_sync t)"
  have "\<not> FrontendTrigger_hit dw ?v ?m (data x)"
  proof
    assume "FrontendTrigger_hit dw ?v ?m (data x)"
    then have "take_bit dw (data x) AND take_bit (payload_width dw) ?m = ?v"
      using assms(1) by (simp add: FrontendTrigger_hit_def take_bit_fits)
    then have "?v AND NOT ?m = (take_bit dw (data x) AND take_bit (payload_width dw) ?m) AND NOT ?m"
      by simp
    also have "\<dots> = 0"
      by (rule bit_eqI) (auto simp: bit_and_iff bit_not_iff bit_take_bit_iff)
    finally show False using assms(2) by simp
  qed
  then show ?thesis by (simp add: FrontendTrigger_comb_def)
qed

theorem FrontendTrigger_value_outside_mask_never_hits_witness:
  "hit (fst (FrontendTrigger_comb 4 \<lparr>value_sync = (0, 4), mask_sync = (0, 3)\<rparr>
               \<lparr>valid = True, data = 4, hit = 0\<rparr> True)) = 0"
  using FrontendTrigger_value_outside_mask_never_hits
          [of 4 "\<lparr>value_sync = (0, 4), mask_sync = (0, 3)\<rparr>"
              "\<lparr>valid = True, data = 4, hit = 0\<rparr>" True]
  by (simp add: fits_def MultiReg_o_def payload_width_def)

section \<open>Properties of the sub-sampler\<close>







section \<open>Properties of the storage FIFO and of one controller cycle\<close>

lemma level_contents: "level f = length (contents f)"
  by (simp add: level_def contents_def)

lemma contents_SyncFIFO_step:
  "contents (SyncFIFO_step depth we din re f) =
     (if re \<and> readable f then tl (contents f) else contents f)
     @ (if we \<and> writable depth f then [din] else [])"
  by (cases "storage f") (auto simp: contents_def SyncFIFO_step_def Let_def)

lemma readable_SyncFIFO_step:
  "readable (SyncFIFO_step depth we din re f) = (storage f \<noteq> [] \<or> (readable f \<and> \<not> re))"
  by (auto simp: SyncFIFO_step_def Let_def)


lemma level_SyncFIFO_step:
  "level (SyncFIFO_step depth we din re f) =
     level f - (if re \<and> readable f then 1 else 0) + (if we \<and> writable depth f then 1 else 0)"
  by (cases "storage f") (auto simp: level_def SyncFIFO_step_def Let_def)

lemma storage_empty_iff: "storage f = [] \<longleftrightarrow> level f = (if readable f then 1 else 0)"
  by (simp add: level_def)

lemma fsm_step_IDLE: "fsm s = IDLE \<Longrightarrow> fsm (AnalyzerStorage_step cfg s i) = (if start_re i then WAIT else IDLE)"
  by (simp add: AnalyzerStorage_step_def AnalyzerStorage_comb_def Let_def)

lemma fsm_step_WAIT: "fsm s = WAIT \<Longrightarrow> fsm (AnalyzerStorage_step cfg s i) = (if valid (sink i) \<and> hit (sink i) \<noteq> 0 then RUN else WAIT)"
  by (simp add: AnalyzerStorage_step_def AnalyzerStorage_comb_def Let_def)

lemma fsm_step_RUN: "fsm s = RUN \<Longrightarrow> fsm (AnalyzerStorage_step cfg s i) =
    (if \<not> writable (mem_depth cfg) (mem s) \<or> length_storage cfg \<le> level (mem s) then IDLE else RUN)"
  by (simp add: AnalyzerStorage_step_def AnalyzerStorage_comb_def Let_def)

lemma mem_step_IDLE: "fsm s = IDLE \<Longrightarrow> mem (AnalyzerStorage_step cfg s i) =
    SyncFIFO_step (mem_depth cfg) False (data (sink i)) (mem_ready_re i \<and> mem_ready_r i) (mem s)"
  by (simp add: AnalyzerStorage_step_def AnalyzerStorage_comb_def Let_def)

lemma mem_step_WAIT: "fsm s = WAIT \<Longrightarrow> mem (AnalyzerStorage_step cfg s i) =
    SyncFIFO_step (mem_depth cfg) (valid (sink i)) (data (sink i)) (offset_storage cfg \<le> level (mem s)) (mem s)"
  by (simp add: AnalyzerStorage_step_def AnalyzerStorage_comb_def Let_def)

lemma mem_step_RUN: "fsm s = RUN \<Longrightarrow> mem (AnalyzerStorage_step cfg s i) =
    SyncFIFO_step (mem_depth cfg) (valid (sink i)) (data (sink i))
      (\<not> writable (mem_depth cfg) (mem s) \<or> length_storage cfg \<le> level (mem s)) (mem s)"
  by (simp add: AnalyzerStorage_step_def AnalyzerStorage_comb_def Let_def)

lemma bounded_step:
  assumes "2 \<le> length_storage cfg" "offset_storage cfg \<le> length_storage cfg" "bounded cfg s"
  shows "bounded cfg (AnalyzerStorage_step cfg s i)"
proof (cases "fsm s")
  case IDLE
  then show ?thesis using assms
    by (auto simp: bounded_def mem_step_IDLE level_SyncFIFO_step readable_SyncFIFO_step storage_empty_iff)
next
  case WAIT
  then show ?thesis using assms
    by (auto simp: bounded_def mem_step_WAIT level_SyncFIFO_step readable_SyncFIFO_step storage_empty_iff)
next
  case RUN
  then show ?thesis using assms
    by (auto simp: bounded_def mem_step_RUN level_SyncFIFO_step readable_SyncFIFO_step storage_empty_iff)
qed



lemma bounded_reset: "bounded cfg AnalyzerStorage_reset"
  by (simp add: bounded_def AnalyzerStorage_reset_def fifo_empty_def level_def)

lemma bounded_run:
  assumes "2 \<le> length_storage cfg" "offset_storage cfg \<le> length_storage cfg"
  shows "bounded cfg s \<Longrightarrow> bounded cfg (AnalyzerStorage_run cfg s ins)"
  by (induction ins arbitrary: s) (simp_all add: bounded_step[OF assms])

lemma WAIT_stays:
  assumes "\<forall>i \<in> set ins. \<not> (valid (sink i) \<and> hit (sink i) \<noteq> 0)"
  shows "fsm s = WAIT \<Longrightarrow> fsm (AnalyzerStorage_run cfg s ins) = WAIT"
  using assms by (induction ins arbitrary: s) (simp_all add: fsm_step_WAIT)

lemma WAIT_retains_step:
  assumes "fsm s = WAIT" "offset_storage cfg \<le> level (mem s) + 1"
  shows "offset_storage cfg \<le> level (mem (AnalyzerStorage_step cfg s i)) + 1"
  using assms by (auto simp: mem_step_WAIT level_SyncFIFO_step)

lemma WAIT_retains_run:
  assumes "\<forall>i \<in> set ins. \<not> (valid (sink i) \<and> hit (sink i) \<noteq> 0)"
  shows "fsm s = WAIT \<Longrightarrow> offset_storage cfg \<le> level (mem s) + 1
     \<Longrightarrow> offset_storage cfg \<le> level (mem (AnalyzerStorage_run cfg s ins)) + 1"
  using assms
proof (induction ins arbitrary: s)
  case Nil
  then show ?case by simp
next
  case (Cons i ins)
  have "fsm (AnalyzerStorage_step cfg s i) = WAIT"
    using Cons.prems by (simp add: fsm_step_WAIT)
  moreover have "offset_storage cfg \<le> level (mem (AnalyzerStorage_step cfg s i)) + 1"
    by (rule WAIT_retains_step[OF Cons.prems(1,2)])
  moreover have "\<forall>i \<in> set ins. \<not> (valid (sink i) \<and> hit (sink i) \<noteq> 0)"
    using Cons.prems(3) by simp
  ultimately show ?case using Cons.IH by simp
qed









lemmas scenario_defs = AnalyzerStorage_step_def AnalyzerStorage_comb_def SyncFIFO_step_def Let_def
  AnalyzerStorage_reset_def fifo_empty_def level_def writable_def contents_def
  start_pulse_def quiet_def sample_def hit_sample_def host_pop_def bubble_def

section \<open>The capture controller: leaving RUN\<close>

text \<open>
  Claim C1, as stated, fails: the sink stays connected to the FIFO in the cycle that leaves
  RUN, so a sample offered in that cycle is written while the oldest word is popped. With
  length 4 and offset 2 and a sample in every cycle, the controller is in RUN with fill
  level 4, and one cycle later in IDLE with fill level 4, not 3.
\<close>

theorem RUN_exit_keeps_length_counterexample:
  "fsm (AnalyzerStorage_run \<lparr>mem_depth = 8, length_storage = 4, offset_storage = 2\<rparr>
          AnalyzerStorage_reset
          [start_pulse, sample 10, sample 11, sample 12, hit_sample 13, sample 14, sample 15]) = RUN
   \<and> level (mem (AnalyzerStorage_run \<lparr>mem_depth = 8, length_storage = 4, offset_storage = 2\<rparr>
          AnalyzerStorage_reset
          [start_pulse, sample 10, sample 11, sample 12, hit_sample 13, sample 14, sample 15])) = 4
   \<and> fsm (AnalyzerStorage_run \<lparr>mem_depth = 8, length_storage = 4, offset_storage = 2\<rparr>
          AnalyzerStorage_reset
          [start_pulse, sample 10, sample 11, sample 12, hit_sample 13, sample 14, sample 15,
           sample 16]) = IDLE
   \<and> level (mem (AnalyzerStorage_run \<lparr>mem_depth = 8, length_storage = 4, offset_storage = 2\<rparr>
          AnalyzerStorage_reset
          [start_pulse, sample 10, sample 11, sample 12, hit_sample 13, sample 14, sample 15,
           sample 16])) = 4"
  by (simp add: scenario_defs)

text \<open>
  Claim C1, amended. In state RUN the controller leaves for IDLE in the first cycle in
  which the FIFO is not writable or its level has reached \<open>length\<close>, and stays in RUN
  otherwise. In the leaving cycle the FIFO's read side is enabled, so the oldest word is
  popped when the FIFO offers one; in every RUN cycle, the leaving one included, a valid
  sample is written when the FIFO is writable. So a capture that leaves RUN at level
  \<open>length\<close> with a word on offer returns to IDLE with \<open>length - 1\<close> words when no sample
  is written in that cycle, and with \<open>length\<close> words when one is.
\<close>

theorem RUN_exit_pops_while_sink_connected:
  assumes "fsm s = RUN"
  shows "fsm (AnalyzerStorage_step cfg s i)
           = (if \<not> writable (mem_depth cfg) (mem s) \<or> length_storage cfg \<le> level (mem s)
              then IDLE else RUN)
       \<and> contents (mem (AnalyzerStorage_step cfg s i))
           = (if (\<not> writable (mem_depth cfg) (mem s) \<or> length_storage cfg \<le> level (mem s))
                  \<and> readable (mem s)
              then tl (contents (mem s)) else contents (mem s))
             @ (if valid (sink i) \<and> writable (mem_depth cfg) (mem s) then [data (sink i)] else [])
       \<and> (level (mem s) = length_storage cfg \<and> readable (mem s)
          \<longrightarrow> level (mem (AnalyzerStorage_step cfg s i))
                = length_storage cfg - 1
                  + (if valid (sink i) \<and> writable (mem_depth cfg) (mem s) then 1 else 0))"
  using assms
  by (simp add: fsm_step_RUN mem_step_RUN contents_SyncFIFO_step level_SyncFIFO_step)

theorem RUN_exit_pops_while_sink_connected_witness:
  "fsm (AnalyzerStorage_step \<lparr>mem_depth = 8, length_storage = 4, offset_storage = 2\<rparr>
          \<lparr>fsm = RUN, mem = \<lparr>storage = [13, 14, 15], dout = 12, readable = True\<rparr>\<rparr> (sample 16)) = IDLE
   \<and> contents (mem (AnalyzerStorage_step \<lparr>mem_depth = 8, length_storage = 4, offset_storage = 2\<rparr>
          \<lparr>fsm = RUN, mem = \<lparr>storage = [13, 14, 15], dout = 12, readable = True\<rparr>\<rparr> (sample 16)))
       = [13, 14, 15, 16]"
  using RUN_exit_pops_while_sink_connected
          [of "\<lparr>fsm = RUN, mem = \<lparr>storage = [13, 14, 15], dout = 12, readable = True\<rparr>\<rparr>"
              "\<lparr>mem_depth = 8, length_storage = 4, offset_storage = 2\<rparr>" "sample 16"]
  by (simp add: level_def writable_def contents_def sample_def)

section \<open>The capture controller: bounds on the fill level\<close>

text \<open>
  Claim C2, as stated, fails in both halves. With offset 3 and length 2 (nothing checks
  \<open>offset < length\<close>) RUN is entered with 3 words, more than \<open>length\<close>. With offset 3,
  the level reaches 3 in WAIT, and a cycle without a sample then drains it to 2 while the
  controller still waits for the trigger.
\<close>

theorem capture_level_bounds_counterexample:
  "fsm (AnalyzerStorage_run \<lparr>mem_depth = 8, length_storage = 2, offset_storage = 3\<rparr>
          AnalyzerStorage_reset
          [start_pulse, sample 10, sample 11, sample 12, sample 13, hit_sample 14]) = RUN
   \<and> level (mem (AnalyzerStorage_run \<lparr>mem_depth = 8, length_storage = 2, offset_storage = 3\<rparr>
          AnalyzerStorage_reset
          [start_pulse, sample 10, sample 11, sample 12, sample 13, hit_sample 14])) = 3
   \<and> fsm (AnalyzerStorage_run \<lparr>mem_depth = 8, length_storage = 6, offset_storage = 3\<rparr>
          AnalyzerStorage_reset [start_pulse, sample 1, sample 2, sample 3]) = WAIT
   \<and> level (mem (AnalyzerStorage_run \<lparr>mem_depth = 8, length_storage = 6, offset_storage = 3\<rparr>
          AnalyzerStorage_reset [start_pulse, sample 1, sample 2, sample 3])) = 3
   \<and> fsm (AnalyzerStorage_run \<lparr>mem_depth = 8, length_storage = 6, offset_storage = 3\<rparr>
          AnalyzerStorage_reset [start_pulse, sample 1, sample 2, sample 3, quiet]) = WAIT
   \<and> level (mem (AnalyzerStorage_run \<lparr>mem_depth = 8, length_storage = 6, offset_storage = 3\<rparr>
          AnalyzerStorage_reset [start_pulse, sample 1, sample 2, sample 3, quiet])) = 2"
  by (simp add: scenario_defs)

text \<open>
  Claim C2, amended. For a configuration with \<open>offset \<le> length\<close> and \<open>length \<ge> 2\<close>, the
  FIFO never holds more than \<open>length\<close> words, in any state reached from reset. In WAIT,
  once the level has reached \<open>offset - 1\<close> it is at least \<open>offset - 1\<close> for as long as no
  sample with a hit is offered (a draining cycle in which no sample is written leaves
  \<open>offset - 1\<close> words).
\<close>

theorem capture_level_bounds:
  assumes "2 \<le> length_storage cfg" and "offset_storage cfg \<le> length_storage cfg"
    and "fsm s = WAIT" and "offset_storage cfg \<le> level (mem s) + 1"
    and "\<forall>i \<in> set wait_ins. \<not> (valid (sink i) \<and> hit (sink i) \<noteq> 0)"
  shows "level (mem (AnalyzerStorage_run cfg AnalyzerStorage_reset ins)) \<le> length_storage cfg
       \<and> fsm (AnalyzerStorage_run cfg s wait_ins) = WAIT
       \<and> offset_storage cfg \<le> level (mem (AnalyzerStorage_run cfg s wait_ins)) + 1"
proof -
  have "bounded cfg (AnalyzerStorage_run cfg AnalyzerStorage_reset ins)"
    by (rule bounded_run[OF assms(1,2) bounded_reset])
  then have "level (mem (AnalyzerStorage_run cfg AnalyzerStorage_reset ins)) \<le> length_storage cfg"
    by (simp add: bounded_def)
  moreover have "fsm (AnalyzerStorage_run cfg s wait_ins) = WAIT"
    by (rule WAIT_stays[OF assms(5,3)])
  moreover have "offset_storage cfg \<le> level (mem (AnalyzerStorage_run cfg s wait_ins)) + 1"
    by (rule WAIT_retains_run[OF assms(5,3,4)])
  ultimately show ?thesis by simp
qed

theorem capture_level_bounds_witness:
  "level (mem (AnalyzerStorage_run \<lparr>mem_depth = 8, length_storage = 4, offset_storage = 2\<rparr>
       AnalyzerStorage_reset
       [start_pulse, sample 10, sample 11, sample 12, hit_sample 13, sample 14, sample 15,
        sample 16])) \<le> 4
   \<and> fsm (AnalyzerStorage_run \<lparr>mem_depth = 8, length_storage = 4, offset_storage = 2\<rparr>
       \<lparr>fsm = WAIT, mem = \<lparr>storage = [11], dout = 10, readable = True\<rparr>\<rparr> [quiet, sample 12]) = WAIT
   \<and> 2 \<le> level (mem (AnalyzerStorage_run \<lparr>mem_depth = 8, length_storage = 4, offset_storage = 2\<rparr>
       \<lparr>fsm = WAIT, mem = \<lparr>storage = [11], dout = 10, readable = True\<rparr>\<rparr> [quiet, sample 12])) + 1"
  using capture_level_bounds [of "\<lparr>mem_depth = 8, length_storage = 4, offset_storage = 2\<rparr>"
                   "\<lparr>fsm = WAIT, mem = \<lparr>storage = [11], dout = 10, readable = True\<rparr>\<rparr>"
                   "[quiet, sample 12]"
                   "[start_pulse, sample 10, sample 11, sample 12, hit_sample 13, sample 14,
                     sample 15, sample 16]"]
  by (simp add: level_def quiet_def sample_def bubble_def)

section \<open>The capture controller: the window kept in WAIT\<close>




section \<open>The capture controller: the trigger\<close>

text \<open>
  Claim C4, as stated, fails in its second half. With \<^verbatim>\<open>depth = 8\<close> and \<^verbatim>\<open>cd_ratio = 2\<close>
  the FIFO has 4 words of memory; with offset 8 it never drains in WAIT and is full after
  five samples. A sample with a hit offered then is not written (the FIFO is not ready),
  yet the controller is in RUN in the next cycle: no sample with a hit has been written.
\<close>

theorem RUN_before_hit_written_counterexample:
  "AnalyzerStorage_mem_depth 8 2 = Some 4
   \<and> fsm (AnalyzerStorage_run \<lparr>mem_depth = 4, length_storage = 8, offset_storage = 8\<rparr>
          AnalyzerStorage_reset
          [start_pulse, sample 1, sample 2, sample 3, sample 4, sample 5]) = WAIT
   \<and> contents (mem (AnalyzerStorage_run \<lparr>mem_depth = 4, length_storage = 8, offset_storage = 8\<rparr>
          AnalyzerStorage_reset
          [start_pulse, sample 1, sample 2, sample 3, sample 4, sample 5])) = [1, 2, 3, 4, 5]
   \<and> fsm (AnalyzerStorage_run \<lparr>mem_depth = 4, length_storage = 8, offset_storage = 8\<rparr>
          AnalyzerStorage_reset
          [start_pulse, sample 1, sample 2, sample 3, sample 4, sample 5, hit_sample 7]) = RUN
   \<and> contents (mem (AnalyzerStorage_run \<lparr>mem_depth = 4, length_storage = 8, offset_storage = 8\<rparr>
          AnalyzerStorage_reset
          [start_pulse, sample 1, sample 2, sample 3, sample 4, sample 5, hit_sample 7]))
        = [1, 2, 3, 4, 5]
   \<and> written \<lparr>mem_depth = 4, length_storage = 8, offset_storage = 8\<rparr> AnalyzerStorage_reset
          [start_pulse, sample 1, sample 2, sample 3, sample 4, sample 5, hit_sample 7]
        = [1, 2, 3, 4, 5]"
  by (simp add: scenario_defs AnalyzerStorage_mem_depth_def)

text \<open>
  Claim C4, amended. In WAIT the controller is in RUN in the next cycle exactly when a
  valid sample with a non-zero hit is offered in this cycle, and in WAIT otherwise. The
  sample is written in that cycle exactly when the FIFO is writable; so a hit sample that
  is written is followed by RUN, and RUN is entered without the hit sample written when
  the FIFO is full.
\<close>

theorem WAIT_to_RUN_on_presented_hit:
  assumes "fsm s = WAIT"
  shows "(fsm (AnalyzerStorage_step cfg s i) = RUN) = (valid (sink i) \<and> hit (sink i) \<noteq> 0)
       \<and> (fsm (AnalyzerStorage_step cfg s i) = WAIT) = (\<not> (valid (sink i) \<and> hit (sink i) \<noteq> 0))
       \<and> written cfg s [i]
           = (if valid (sink i) \<and> writable (mem_depth cfg) (mem s) then [data (sink i)] else [])"
  using assms by (simp add: fsm_step_WAIT AnalyzerStorage_comb_def)

theorem WAIT_to_RUN_on_presented_hit_witness:
  "fsm (AnalyzerStorage_step \<lparr>mem_depth = 8, length_storage = 4, offset_storage = 2\<rparr>
          \<lparr>fsm = WAIT, mem = fifo_empty\<rparr> (hit_sample 13)) = RUN
   \<and> written \<lparr>mem_depth = 8, length_storage = 4, offset_storage = 2\<rparr>
          \<lparr>fsm = WAIT, mem = fifo_empty\<rparr> [hit_sample 13] = [13]"
  using WAIT_to_RUN_on_presented_hit [of "\<lparr>fsm = WAIT, mem = fifo_empty\<rparr>"
                   "\<lparr>mem_depth = 8, length_storage = 4, offset_storage = 2\<rparr>" "hit_sample 13"]
  by (simp add: hit_sample_def writable_def fifo_empty_def)

section \<open>The capture controller: readback\<close>

text \<open>
  Claim C7, as stated, fails outside IDLE. In WAIT with offset 5 and the words 1, 2, 3
  held, \<^verbatim>\<open>mem_valid\<close> is set and a write of 1 to \<^verbatim>\<open>mem_ready\<close> pops nothing. And words
  leave the FIFO without the host: with offset 2 the words 1, 2, 3 were written and only
  2, 3 are held, with no write to \<^verbatim>\<open>mem_ready\<close> at all.
\<close>

theorem host_readback_counterexample:
  "fsm (AnalyzerStorage_run \<lparr>mem_depth = 8, length_storage = 6, offset_storage = 5\<rparr>
          AnalyzerStorage_reset [start_pulse, sample 1, sample 2, sample 3]) = WAIT
   \<and> mem_valid_status (AnalyzerStorage_comb \<lparr>mem_depth = 8, length_storage = 6, offset_storage = 5\<rparr>
          (AnalyzerStorage_run \<lparr>mem_depth = 8, length_storage = 6, offset_storage = 5\<rparr>
             AnalyzerStorage_reset [start_pulse, sample 1, sample 2, sample 3]) host_pop)
   \<and> contents (mem (AnalyzerStorage_run \<lparr>mem_depth = 8, length_storage = 6, offset_storage = 5\<rparr>
          AnalyzerStorage_reset [start_pulse, sample 1, sample 2, sample 3])) = [1, 2, 3]
   \<and> contents (mem (AnalyzerStorage_run \<lparr>mem_depth = 8, length_storage = 6, offset_storage = 5\<rparr>
          AnalyzerStorage_reset [start_pulse, sample 1, sample 2, sample 3, host_pop])) = [1, 2, 3]
   \<and> written \<lparr>mem_depth = 8, length_storage = 6, offset_storage = 2\<rparr>
          AnalyzerStorage_reset [start_pulse, sample 1, sample 2, sample 3] = [1, 2, 3]
   \<and> contents (mem (AnalyzerStorage_run \<lparr>mem_depth = 8, length_storage = 6, offset_storage = 2\<rparr>
          AnalyzerStorage_reset [start_pulse, sample 1, sample 2, sample 3])) = [2, 3]"
  by (simp add: scenario_defs)

text \<open>
  Claim C7, amended. In IDLE, \<^verbatim>\<open>mem_valid\<close> says that the FIFO offers a word and
  \<^verbatim>\<open>mem_data\<close> shows that word, the oldest one held; a write of 1 to \<^verbatim>\<open>mem_ready\<close>
  while \<^verbatim>\<open>mem_valid\<close> is set pops exactly that word, and without such a write nothing
  leaves the FIFO. In WAIT and RUN the \<^verbatim>\<open>mem_ready\<close> register has no effect on the next
  state of the controller and FIFO.
\<close>

theorem host_readback_in_IDLE:
  assumes "fsm s = IDLE" and "fsm s' = WAIT \<or> fsm s' = RUN"
  shows "mem_valid_status (AnalyzerStorage_comb cfg s i) = readable (mem s)
       \<and> (readable (mem s) \<longrightarrow> mem_data_status (AnalyzerStorage_comb cfg s i) = hd (contents (mem s)))
       \<and> contents (mem (AnalyzerStorage_step cfg s i))
           = (if readable (mem s) \<and> mem_ready_re i \<and> mem_ready_r i
              then tl (contents (mem s)) else contents (mem s))
       \<and> AnalyzerStorage_step cfg s' (i\<lparr>mem_ready_re := a, mem_ready_r := b\<rparr>)
           = AnalyzerStorage_step cfg s' i"
proof -
  have "AnalyzerStorage_step cfg s' (i\<lparr>mem_ready_re := a, mem_ready_r := b\<rparr>)
          = AnalyzerStorage_step cfg s' i"
    using assms(2) by (auto simp: AnalyzerStorage_step_def AnalyzerStorage_comb_def Let_def)
  moreover have "contents (mem (AnalyzerStorage_step cfg s i))
           = (if readable (mem s) \<and> mem_ready_re i \<and> mem_ready_r i
              then tl (contents (mem s)) else contents (mem s))"
    using assms(1) by (simp add: mem_step_IDLE contents_SyncFIFO_step)
  moreover have "mem_valid_status (AnalyzerStorage_comb cfg s i) = readable (mem s)"
    using assms(1) by (simp add: AnalyzerStorage_comb_def)
  moreover have "readable (mem s) \<longrightarrow> mem_data_status (AnalyzerStorage_comb cfg s i) = hd (contents (mem s))"
    using assms(1) by (simp add: AnalyzerStorage_comb_def contents_def)
  ultimately show ?thesis by simp
qed

theorem host_readback_in_IDLE_witness:
  "mem_data_status (AnalyzerStorage_comb \<lparr>mem_depth = 8, length_storage = 4, offset_storage = 2\<rparr>
       \<lparr>fsm = IDLE, mem = \<lparr>storage = [14, 15, 16], dout = 13, readable = True\<rparr>\<rparr> host_pop) = 13
   \<and> contents (mem (AnalyzerStorage_step \<lparr>mem_depth = 8, length_storage = 4, offset_storage = 2\<rparr>
       \<lparr>fsm = IDLE, mem = \<lparr>storage = [14, 15, 16], dout = 13, readable = True\<rparr>\<rparr> host_pop))
       = [14, 15, 16]
   \<and> AnalyzerStorage_step \<lparr>mem_depth = 8, length_storage = 4, offset_storage = 2\<rparr>
        \<lparr>fsm = WAIT, mem = \<lparr>storage = [11], dout = 10, readable = True\<rparr>\<rparr>
        (quiet\<lparr>mem_ready_re := True, mem_ready_r := True\<rparr>)
       = AnalyzerStorage_step \<lparr>mem_depth = 8, length_storage = 4, offset_storage = 2\<rparr>
        \<lparr>fsm = WAIT, mem = \<lparr>storage = [11], dout = 10, readable = True\<rparr>\<rparr> quiet"
  using host_readback_in_IDLE [of "\<lparr>fsm = IDLE, mem = \<lparr>storage = [14, 15, 16], dout = 13, readable = True\<rparr>\<rparr>"
                   "\<lparr>fsm = WAIT, mem = \<lparr>storage = [11], dout = 10, readable = True\<rparr>\<rparr>"
                   "\<lparr>mem_depth = 8, length_storage = 4, offset_storage = 2\<rparr>" host_pop True True]
        host_readback_in_IDLE [of "\<lparr>fsm = IDLE, mem = \<lparr>storage = [14, 15, 16], dout = 13, readable = True\<rparr>\<rparr>"
                   "\<lparr>fsm = WAIT, mem = \<lparr>storage = [11], dout = 10, readable = True\<rparr>\<rparr>"
                   "\<lparr>mem_depth = 8, length_storage = 4, offset_storage = 2\<rparr>" quiet True True]
  by (simp add: contents_def host_pop_def)

section \<open>The capture controller: the size of a completed capture\<close>




section \<open>The capture controller: the start pulse\<close>

text \<open>
  Claim C10. The start pulse is acted upon only in IDLE, where it decides between WAIT
  and IDLE; in WAIT and RUN the next state of the controller and of the FIFO, and every
  combinational output, are the same with and without the pulse.
\<close>

theorem start_ignored_outside_IDLE:
  assumes "fsm s = WAIT \<or> fsm s = RUN" and "fsm s0 = IDLE"
  shows "AnalyzerStorage_step cfg s (i\<lparr>start_re := b\<rparr>) = AnalyzerStorage_step cfg s i
       \<and> AnalyzerStorage_comb cfg s (i\<lparr>start_re := b\<rparr>) = AnalyzerStorage_comb cfg s i
       \<and> fsm (AnalyzerStorage_step cfg s0 i) = (if start_re i then WAIT else IDLE)"
  using assms by (auto simp: AnalyzerStorage_step_def AnalyzerStorage_comb_def Let_def)

theorem start_ignored_outside_IDLE_witness:
  "AnalyzerStorage_step \<lparr>mem_depth = 8, length_storage = 4, offset_storage = 2\<rparr>
        \<lparr>fsm = RUN, mem = \<lparr>storage = [13], dout = 12, readable = True\<rparr>\<rparr> ((sample 14)\<lparr>start_re := True\<rparr>)
     = AnalyzerStorage_step \<lparr>mem_depth = 8, length_storage = 4, offset_storage = 2\<rparr>
        \<lparr>fsm = RUN, mem = \<lparr>storage = [13], dout = 12, readable = True\<rparr>\<rparr> (sample 14)
   \<and> fsm (AnalyzerStorage_step \<lparr>mem_depth = 8, length_storage = 4, offset_storage = 2\<rparr>
        AnalyzerStorage_reset (sample 14)) = IDLE"
  using start_ignored_outside_IDLE [where s = "\<lparr>fsm = RUN, mem = \<lparr>storage = [13], dout = 12, readable = True\<rparr>\<rparr>"
                    and ?s0.0 = AnalyzerStorage_reset
                    and cfg = "\<lparr>mem_depth = 8, length_storage = 4, offset_storage = 2\<rparr>"
                    and i = "sample 14" and b = True]
  by (simp add: AnalyzerStorage_reset_def sample_def)

end
